theory Spec2Isabelle
  imports Main "HOL-Library.Sublist" "HOL-Library.Product_Lexorder"
begin

section \<open>Values, errors and the contact table\<close>

text \<open>
  The contacts backend: the table of \<^verbatim>\<open>src/database/models.py\<close>, the input and output
  shapes of \<^verbatim>\<open>src/schemas.py\<close> and the queries of \<^verbatim>\<open>src/repository/contacts.py\<close>.

  A Python \<^verbatim>\<open>str\<close> is a list of characters, one list element per character, so that
  \<open>length\<close> is Python's \<^verbatim>\<open>len\<close>. Every exception the code or the libraries it calls can
  raise on the modelled inputs is a value of \<open>error\<close>, and a function that can raise returns
  \<open>error + result\<close>. Loss of the database connection is outside the model.
\<close>

record date =
  year :: nat
  month :: nat
  day :: nat

datatype error =
    TypeError string
  | AttributeError string
  | ValueError string
  | ValidationError "(string \<times> string) list"
  | OverflowError string
  | IntegrityError string
  | DataError string

text \<open>The values an attribute of a request body or of an ORM instance can hold.\<close>

datatype pyval = PNone | PStr string | PInt int | PDate date

text \<open>Python truthiness, as used by \<^verbatim>\<open>if body.email:\<close>.\<close>

fun truthy :: "pyval \<Rightarrow> bool" where
  "truthy PNone = False"
| "truthy (PStr s) = (s \<noteq> [])"
| "truthy (PInt i) = (i \<noteq> 0)"
| "truthy (PDate d) = True"

text \<open>
  A row of the table \<^verbatim>\<open>contacts\<close>. Every column but \<^verbatim>\<open>user_id\<close> is declared
  \<^verbatim>\<open>nullable=False\<close>; the primary key \<^verbatim>\<open>id\<close> is the field \<open>id_pk\<close>.
\<close>

record Contact =
  id_pk :: int
  first_name :: string
  last_name :: string
  email :: string
  phone_number :: string
  date_of_birth :: date
  additional_data :: string
  user_id :: "int option"

text \<open>
  The session: the rows of the table in the order the store returns them without an
  \<^verbatim>\<open>ORDER BY\<close> (insertion order), and the next value of the autoincrement key.
\<close>

record Session =
  contacts :: "Contact list"
  next_id :: int

subsection \<open>Query building blocks\<close>

text \<open>
  \<^verbatim>\<open>.offset(skip).limit(limit).all()\<close>. A negative offset or limit is rejected by the
  store (PostgreSQL and MySQL raise; the claims only concern non-negative values).
\<close>

definition paginate :: "int \<Rightarrow> int \<Rightarrow> 'a list \<Rightarrow> error + 'a list" where
  "paginate skip limit xs =
     (if skip < 0 \<or> limit < 0 then Inl (DataError ''OFFSET/LIMIT must not be negative'')
      else Inr (take (nat limit) (drop (nat skip) xs)))"

text \<open>\<^verbatim>\<open>db.query(Contact).filter(Contact.id == contact_id).first()\<close>\<close>

definition first_by_id :: "int \<Rightarrow> Session \<Rightarrow> Contact option" where
  "first_by_id contact_id db = find (\<lambda>c. id_pk c = contact_id) (contacts db)"

text \<open>
  \<^verbatim>\<open>db.delete(contact); db.commit()\<close>: the ORM emits
  \<^verbatim>\<open>DELETE FROM contacts WHERE contacts.id = ?\<close> with the key of the instance.
\<close>

definition delete_row :: "Contact \<Rightarrow> Session \<Rightarrow> Session" where
  "delete_row contact db =
     db\<lparr>contacts := filter (\<lambda>c. id_pk c \<noteq> id_pk contact) (contacts db)\<rparr>"

section \<open>The repository: list, get, remove\<close>

definition get_contacts :: "int \<Rightarrow> int \<Rightarrow> Session \<Rightarrow> error + Contact list" where
  "get_contacts skip limit db = paginate skip limit (contacts db)"

definition get_contact :: "int \<Rightarrow> Session \<Rightarrow> error + Contact option" where
  "get_contact contact_id db = Inr (first_by_id contact_id db)"

text \<open>
  \<^verbatim>\<open>if contact:\<close> tests an ORM instance, which defines neither \<^verbatim>\<open>__bool__\<close> nor
  \<^verbatim>\<open>__len__\<close>: it is true exactly when a row was found.
\<close>

definition remove_contact :: "int \<Rightarrow> Session \<Rightarrow> error + (Contact option \<times> Session)" where
  "remove_contact contact_id db =
     (case first_by_id contact_id db of
        None \<Rightarrow> Inr (None, db)
      | Some contact \<Rightarrow> Inr (Some contact, delete_row contact db))"

section \<open>ORM instances\<close>

text \<open>
  An instance of the mapped class \<^verbatim>\<open>Contact\<close> in Python: its attribute dictionary. The
  class defines the columns of \<^verbatim>\<open>models.py\<close>, the relationship \<^verbatim>\<open>user\<close> and what the
  declarative base gives every mapped class.
\<close>

type_synonym orm_object = "string \<rightharpoonup> pyval"

definition Contact_attributes :: "string list" where
  "Contact_attributes =
     [''id'', ''first_name'', ''last_name'', ''email'', ''phone_number'', ''date_of_birth'',
      ''additional_data'', ''user_id'', ''user'', ''__tablename__'', ''metadata'', ''registry'']"

text \<open>
  The constructor the declarative base gives \<^verbatim>\<open>Contact\<close>, which defines no
  \<^verbatim>\<open>__init__\<close> of its own:
  \<^verbatim>\<open>
  for k in kwargs:
      if not hasattr(cls_, k):
          raise TypeError("%r is an invalid keyword argument for %s" % (k, cls_.__name__))
      setattr(self, k, kwargs[k])
  \<close>
\<close>

fun Contact_init :: "(string \<times> pyval) list \<Rightarrow> orm_object \<Rightarrow> error + orm_object" where
  "Contact_init [] self = Inr self"
| "Contact_init ((k, v) # kwargs) self =
     (if k \<notin> set Contact_attributes then Inl (TypeError k)
      else Contact_init kwargs (self(k \<mapsto> v)))"

text \<open>Reading a column of an instance when it is written to the table.\<close>

definition str_column :: "orm_object \<Rightarrow> string \<Rightarrow> nat \<Rightarrow> error + string" where
  "str_column obj k n =
     (case obj k of
        Some (PStr s) \<Rightarrow> if length s \<le> n then Inr s else Inl (DataError k)
      | _ \<Rightarrow> Inl (IntegrityError k))"

definition date_column :: "orm_object \<Rightarrow> string \<Rightarrow> error + date" where
  "date_column obj k = (case obj k of Some (PDate d) \<Rightarrow> Inr d | _ \<Rightarrow> Inl (IntegrityError k))"

definition fk_column :: "orm_object \<Rightarrow> string \<Rightarrow> error + int option" where
  "fk_column obj k =
     (case obj k of
        None \<Rightarrow> Inr None
      | Some PNone \<Rightarrow> Inr None
      | Some (PInt i) \<Rightarrow> Inr (Some i)
      | Some _ \<Rightarrow> Inl (DataError k))"

text \<open>
  The row an instance is flushed to, under the key \<open>pk\<close>: the \<^verbatim>\<open>NOT NULL\<close> columns
  must hold a value (\<^verbatim>\<open>IntegrityError\<close> otherwise) within the declared
  \<^verbatim>\<open>String(n)\<close> length.
\<close>

definition row_of_instance :: "int \<Rightarrow> orm_object \<Rightarrow> error + Contact" where
  "row_of_instance pk obj =
     (case str_column obj ''first_name'' 25 of Inl e \<Rightarrow> Inl e | Inr fn \<Rightarrow>
      case str_column obj ''last_name'' 50 of Inl e \<Rightarrow> Inl e | Inr ln \<Rightarrow>
      case str_column obj ''email'' 100 of Inl e \<Rightarrow> Inl e | Inr em \<Rightarrow>
      case str_column obj ''phone_number'' 15 of Inl e \<Rightarrow> Inl e | Inr ph \<Rightarrow>
      case date_column obj ''date_of_birth'' of Inl e \<Rightarrow> Inl e | Inr dob \<Rightarrow>
      case str_column obj ''additional_data'' 750 of Inl e \<Rightarrow> Inl e | Inr ad \<Rightarrow>
      case fk_column obj ''user_id'' of Inl e \<Rightarrow> Inl e | Inr uid \<Rightarrow>
        Inr \<lparr>id_pk = pk, first_name = fn, last_name = ln, email = em, phone_number = ph,
             date_of_birth = dob, additional_data = ad, user_id = uid\<rparr>)"

text \<open>The instance the ORM builds from a row it loads.\<close>

definition instance_of_row :: "Contact \<Rightarrow> orm_object" where
  "instance_of_row c =
     [''id'' \<mapsto> PInt (id_pk c), ''first_name'' \<mapsto> PStr (first_name c),
      ''last_name'' \<mapsto> PStr (last_name c), ''email'' \<mapsto> PStr (email c),
      ''phone_number'' \<mapsto> PStr (phone_number c), ''date_of_birth'' \<mapsto> PDate (date_of_birth c),
      ''additional_data'' \<mapsto> PStr (additional_data c),
      ''user_id'' \<mapsto> (case user_id c of None \<Rightarrow> PNone | Some u \<Rightarrow> PInt u)]"

text \<open>
  \<^verbatim>\<open>db.add(contact); db.commit(); db.refresh(contact)\<close> for a new instance: one
  \<^verbatim>\<open>INSERT\<close> under the next autoincrement key, and the row read back.
\<close>

definition insert_row :: "orm_object \<Rightarrow> Session \<Rightarrow> error + (Contact \<times> Session)" where
  "insert_row obj db =
     (case row_of_instance (next_id db) obj of
        Inl e \<Rightarrow> Inl e
      | Inr row \<Rightarrow> Inr (row, db\<lparr>contacts := contacts db @ [row], next_id := next_id db + 1\<rparr>))"

text \<open>
  \<^verbatim>\<open>db.commit(); db.refresh(contact)\<close> for a loaded instance whose attributes were
  assigned: one \<^verbatim>\<open>UPDATE ... WHERE contacts.id = ?\<close> under the key \<open>pk\<close> it was
  loaded with, and the row read back.
\<close>

definition update_row :: "int \<Rightarrow> orm_object \<Rightarrow> Session \<Rightarrow> error + (Contact \<times> Session)" where
  "update_row pk obj db =
     (case row_of_instance pk obj of
        Inl e \<Rightarrow> Inl e
      | Inr row \<Rightarrow>
          Inr (row, db\<lparr>contacts := map (\<lambda>c. if id_pk c = pk then row else c) (contacts db)\<rparr>))"

section \<open>Request bodies\<close>

text \<open>
  A validated \<^verbatim>\<open>ContactIn\<close>: \<^verbatim>\<open>date_of_birth: date = None\<close> makes the date
  optional.
\<close>

record ContactIn =
  in_first_name :: string
  in_last_name :: string
  in_email :: string
  in_phone_number :: string
  in_date_of_birth :: "date option"
  in_additional_data :: string

text \<open>
  A validated \<^verbatim>\<open>ContactUpdate\<close>. Its fields are \<^verbatim>\<open>first_name\<close>, \<^verbatim>\<open>lastname\<close>,
  \<^verbatim>\<open>email\<close>, \<^verbatim>\<open>phone_number\<close>, \<^verbatim>\<open>date_of_birth\<close> and \<^verbatim>\<open>additional_data\<close>, every
  one \<^verbatim>\<open>Optional\<close> with \<^verbatim>\<open>None\<close> when not supplied.
\<close>

record ContactUpdate =
  upd_first_name :: "string option"
  upd_lastname :: "string option"
  upd_email :: "string option"
  upd_phone_number :: "string option"
  upd_date_of_birth :: "date option"
  upd_additional_data :: "string option"

definition opt_str :: "string option \<Rightarrow> pyval" where
  "opt_str v = (case v of None \<Rightarrow> PNone | Some s \<Rightarrow> PStr s)"

definition opt_date :: "date option \<Rightarrow> pyval" where
  "opt_date v = (case v of None \<Rightarrow> PNone | Some d \<Rightarrow> PDate d)"

text \<open>
  \<^verbatim>\<open>body.<name>\<close> on a \<^verbatim>\<open>ContactUpdate\<close>: a field's value, and \<^verbatim>\<open>AttributeError\<close>
  for a name that is not a field of the model.
\<close>

definition ContactUpdate_getattr :: "ContactUpdate \<Rightarrow> string \<Rightarrow> error + pyval" where
  "ContactUpdate_getattr body k =
     (if k = ''first_name'' then Inr (opt_str (upd_first_name body))
      else if k = ''lastname'' then Inr (opt_str (upd_lastname body))
      else if k = ''email'' then Inr (opt_str (upd_email body))
      else if k = ''phone_number'' then Inr (opt_str (upd_phone_number body))
      else if k = ''date_of_birth'' then Inr (opt_date (upd_date_of_birth body))
      else if k = ''additional_data'' then Inr (opt_str (upd_additional_data body))
      else Inl (AttributeError k))"

section \<open>The repository: create and update\<close>

text \<open>
  \<^verbatim>\<open>
  contact = Contact(name=body.first_name, lastname=body.last_name, email=body.email,
                    phone=body.phone_number, birthday=body.date_of_birth,
                    notes=body.additional_data)
  db.add(contact); db.commit(); db.refresh(contact)
  return contact
  \<close>
\<close>

definition create_contact :: "ContactIn \<Rightarrow> Session \<Rightarrow> error + (Contact \<times> Session)" where
  "create_contact body db =
     (case Contact_init
             [(''name'', PStr (in_first_name body)), (''lastname'', PStr (in_last_name body)),
              (''email'', PStr (in_email body)), (''phone'', PStr (in_phone_number body)),
              (''birthday'', opt_date (in_date_of_birth body)),
              (''notes'', PStr (in_additional_data body))] Map.empty of
        Inl e \<Rightarrow> Inl e
      | Inr contact \<Rightarrow> insert_row contact db)"

text \<open>
  One statement of \<^verbatim>\<open>update_contact\<close>:
  \<^verbatim>\<open>
  if body.<cond>:
      contact.<dst> = body.<src>
  \<close>
\<close>

definition assign_if :: "ContactUpdate \<Rightarrow> string \<Rightarrow> string \<Rightarrow> string \<Rightarrow> orm_object \<Rightarrow> error + orm_object" where
  "assign_if body cond dst src contact =
     (case ContactUpdate_getattr body cond of
        Inl e \<Rightarrow> Inl e
      | Inr c \<Rightarrow>
          if truthy c then
            (case ContactUpdate_getattr body src of
               Inl e \<Rightarrow> Inl e
             | Inr v \<Rightarrow> Inr (contact(dst \<mapsto> v)))
          else Inr contact)"

text \<open>
  \<^verbatim>\<open>
  contact = db.query(Contact).filter(Contact.id == contact_id).first()
  if contact:
      if body.name:     contact.first_name = body.first_name
      if body.lastname: contact.last_name = body.last_name
      if body.email:    contact.email = body.email
      if body.phone:    contact.phone_number = body.phone_number
      if body.birthday: contact.date_of_birth = body.date_of_birth
      if body.notes:    contact.additional_data = body.additional_data
      db.commit(); db.refresh(contact)
  return contact
  \<close>
\<close>

definition update_contact ::
  "int \<Rightarrow> ContactUpdate \<Rightarrow> Session \<Rightarrow> error + (Contact option \<times> Session)" where
  "update_contact contact_id body db =
     (case first_by_id contact_id db of
        None \<Rightarrow> Inr (None, db)
      | Some row \<Rightarrow>
         (case assign_if body ''name'' ''first_name'' ''first_name'' (instance_of_row row) of
            Inl e \<Rightarrow> Inl e | Inr c1 \<Rightarrow>
          case assign_if body ''lastname'' ''last_name'' ''last_name'' c1 of
            Inl e \<Rightarrow> Inl e | Inr c2 \<Rightarrow>
          case assign_if body ''email'' ''email'' ''email'' c2 of
            Inl e \<Rightarrow> Inl e | Inr c3 \<Rightarrow>
          case assign_if body ''phone'' ''phone_number'' ''phone_number'' c3 of
            Inl e \<Rightarrow> Inl e | Inr c4 \<Rightarrow>
          case assign_if body ''birthday'' ''date_of_birth'' ''date_of_birth'' c4 of
            Inl e \<Rightarrow> Inl e | Inr c5 \<Rightarrow>
          case assign_if body ''notes'' ''additional_data'' ''additional_data'' c5 of
            Inl e \<Rightarrow> Inl e | Inr c6 \<Rightarrow>
          case update_row (id_pk row) c6 db of
            Inl e \<Rightarrow> Inl e | Inr (row', db') \<Rightarrow> Inr (Some row', db')))"

section \<open>Dates\<close>

text \<open>
  \<^verbatim>\<open>datetime.date\<close>: the proleptic Gregorian calendar, years 1 to 9999.
\<close>

definition is_leap :: "nat \<Rightarrow> bool" where
  "is_leap y = (y mod 4 = 0 \<and> (y mod 100 \<noteq> 0 \<or> y mod 400 = 0))"

definition days_in_month :: "nat \<Rightarrow> nat \<Rightarrow> nat" where
  "days_in_month y m =
     (if m = 2 then (if is_leap y then 29 else 28)
      else if m = 4 \<or> m = 6 \<or> m = 9 \<or> m = 11 then 30 else 31)"

definition valid_date :: "date \<Rightarrow> bool" where
  "valid_date d =
     (1 \<le> year d \<and> year d \<le> 9999 \<and> 1 \<le> month d \<and> month d \<le> 12 \<and>
      1 \<le> day d \<and> day d \<le> days_in_month (year d) (month d))"

text \<open>\<^verbatim>\<open>date(year, month, day)\<close> raises \<^verbatim>\<open>ValueError\<close> outside the calendar.\<close>

definition new_date :: "nat \<Rightarrow> nat \<Rightarrow> nat \<Rightarrow> error + date" where
  "new_date y m d =
     (if valid_date \<lparr>year = y, month = m, day = d\<rparr> then Inr \<lparr>year = y, month = m, day = d\<rparr>
      else Inl (ValueError ''date value out of range''))"

text \<open>The day after a date of the calendar.\<close>

definition next_day :: "date \<Rightarrow> date" where
  "next_day d =
     (if day d < days_in_month (year d) (month d) then d\<lparr>day := day d + 1\<rparr>
      else if month d < 12 then d\<lparr>month := month d + 1, day := 1\<rparr>
      else \<lparr>year = year d + 1, month = 1, day = 1\<rparr>)"

text \<open>
  \<^verbatim>\<open>d + timedelta(days=n)\<close> for \<open>n \<ge> 0\<close>; \<^verbatim>\<open>OverflowError\<close> past 9999-12-31.
\<close>

fun date_add_days :: "date \<Rightarrow> nat \<Rightarrow> error + date" where
  "date_add_days d 0 = Inr d"
| "date_add_days d (Suc n) =
     (if year (next_day d) > 9999 then Inl (OverflowError ''date value out of range'')
      else date_add_days (next_day d) n)"

text \<open>The sort key of \<^verbatim>\<open>ORDER BY date_of_birth\<close>: dates compare by year, month, day.\<close>

definition date_key :: "date \<Rightarrow> nat \<times> nat \<times> nat" where
  "date_key d = (year d, month d, day d)"

subsection \<open>ISO format\<close>

definition is_digit :: "char \<Rightarrow> bool" where
  "is_digit c = (48 \<le> (of_char c :: nat) \<and> (of_char c :: nat) \<le> 57)"

definition digit_value :: "char \<Rightarrow> nat" where
  "digit_value c = of_char c - 48"

definition digit_char :: "nat \<Rightarrow> char" where
  "digit_char n = char_of (48 + n)"

text \<open>A run of decimal digits and nothing else, as \<^verbatim>\<open>parse_digits\<close> of the C module reads it.\<close>

definition parse_digits :: "string \<Rightarrow> nat option" where
  "parse_digits cs =
     (if list_all is_digit cs then Some (foldl (\<lambda>a c. 10 * a + digit_value c) 0 cs)
      else None)"

text \<open>
  \<^verbatim>\<open>date.fromisoformat\<close> belongs to the interpreter, and what it accepts depends on the
  interpreter's version; the code runs on Python 3.10 and later (it writes
  \<^verbatim>\<open>Contact | None\<close>). The validators below take it as the argument \<open>fromisoformat\<close>,
  and two interpreters are modelled.

  Python 3.10: a string of length 10, four digits, a hyphen, two digits, a hyphen, two
  digits, that name a date of the calendar; \<^verbatim>\<open>ValueError\<close> otherwise.
\<close>

definition date_fromisoformat_py310 :: "string \<Rightarrow> error + date" where
  "date_fromisoformat_py310 s =
     (if length s \<noteq> 10 then Inl (ValueError ''Invalid isoformat string'')
      else
        (case (parse_digits (take 4 s), parse_digits (take 2 (drop 5 s)), parse_digits (drop 8 s)) of
           (Some y, Some m, Some d) \<Rightarrow>
             if s ! 4 = CHR ''-'' \<and> s ! 7 = CHR ''-'' then new_date y m d
             else Inl (ValueError ''Invalid isoformat string'')
         | _ \<Rightarrow> Inl (ValueError ''Invalid isoformat string'')))"

text \<open>\<^verbatim>\<open>date.isoformat\<close>: \<^verbatim>\<open>"%04d-%02d-%02d"\<close>.\<close>

definition isoformat :: "date \<Rightarrow> string" where
  "isoformat d =
     [digit_char (year d div 1000), digit_char (year d div 100 mod 10),
      digit_char (year d div 10 mod 10), digit_char (year d mod 10), CHR ''-'',
      digit_char (month d div 10), digit_char (month d mod 10), CHR ''-'',
      digit_char (day d div 10), digit_char (day d mod 10)]"

subsection \<open>ISO format from Python 3.11\<close>

text \<open>
  Python 3.11 (\<^verbatim>\<open>date_fromisoformat\<close> and \<^verbatim>\<open>parse_isoformat_date\<close> of the C module
  \<^verbatim>\<open>_datetime\<close>) also reads the basic form \<^verbatim>\<open>YYYYMMDD\<close> and the week dates
  \<^verbatim>\<open>YYYY-Www\<close>, \<^verbatim>\<open>YYYY-Www-D\<close>, \<^verbatim>\<open>YYYYWww\<close> and \<^verbatim>\<open>YYYYWwwD\<close>. The string must have 7, 8
  or 10 bytes in UTF-8; the fields are read from the left, and bytes after the last
  field are not looked at.
\<close>

text \<open>The bytes of the UTF-8 encoding: two for a character from 128 on.\<close>

definition utf8_length :: "string \<Rightarrow> nat" where
  "utf8_length s = length s + length (filter (\<lambda>c. 128 \<le> (of_char c :: nat)) s)"

text \<open>\<^verbatim>\<open>parse_digits(ptr, &var, n)\<close>: \<open>n\<close> decimal digits, and the rest of the string.\<close>

definition take_digits :: "nat \<Rightarrow> string \<Rightarrow> (nat \<times> string) option" where
  "take_digits n cs =
     (if n \<le> length cs then map_option (\<lambda>v. (v, drop n cs)) (parse_digits (take n cs))
      else None)"

text \<open>Days before the first of a month in a common year, and before the first of January.\<close>

definition days_before_month :: "nat \<Rightarrow> nat" where
  "days_before_month m = [0, 0, 31, 59, 90, 120, 151, 181, 212, 243, 273, 304, 334] ! m"

definition days_before_year :: "nat \<Rightarrow> nat" where
  "days_before_year y = (y - 1) * 365 + (y - 1) div 4 - (y - 1) div 100 + (y - 1) div 400"

text \<open>
  \<^verbatim>\<open>ord_to_ymd\<close>: the date of a day number, day 1 being 0001-01-01, by the cycles of
  400, 100, 4 and 1 years.
\<close>

definition ord_to_ymd :: "nat \<Rightarrow> nat \<times> nat \<times> nat" where
  "ord_to_ymd ordinal =
     (let k = ordinal - 1;
          n400 = k div 146097; na = k mod 146097;
          n100 = na div 36524; nb = na mod 36524;
          n4 = nb div 1461; nc = nb mod 1461;
          n1 = nc div 365; n = nc mod 365;
          y = n400 * 400 + 1 + n100 * 100 + n4 * 4 + n1
      in if n1 = 4 \<or> n100 = 4 then (y - 1, 12, 31)
         else
           (let leapyear = (n1 = 3 \<and> (n4 \<noteq> 24 \<or> n100 = 3));
                m = (n + 50) div 32;
                preceding = days_before_month m + (if m > 2 \<and> leapyear then 1 else 0)
            in if preceding > n
               then (y, m - 1, n - (preceding - days_in_month y (m - 1)) + 1)
               else (y, m, n - preceding + 1)))"

text \<open>
  \<^verbatim>\<open>iso_to_ymd\<close>: the date of day \<open>iso_day\<close> of week \<open>iso_week\<close> of an ISO year. Week 53
  exists in a year that starts on a Thursday, or on a Wednesday when it is a leap
  year; week 1 is the week of the year's first Thursday. No week date of the year
  0000 names a date.
\<close>

definition iso_to_ymd :: "nat \<Rightarrow> nat \<Rightarrow> nat \<Rightarrow> (nat \<times> nat \<times> nat) option" where
  "iso_to_ymd iso_year iso_week iso_day =
     (let first_day = days_before_year iso_year + 1;
          first_weekday = (first_day + 6) mod 7;
          week1_monday = first_day - first_weekday + (if first_weekday > 3 then 7 else 0)
      in if iso_year < 1 then None
         else if (iso_week = 0 \<or> iso_week \<ge> 53) \<and>
                 \<not> (iso_week = 53 \<and>
                    (first_weekday = 3 \<or> (first_weekday = 2 \<and> is_leap iso_year)))
         then None
         else if iso_day = 0 \<or> iso_day \<ge> 8 then None
         else Some (ord_to_ymd (week1_monday + (iso_week - 1) * 7 + iso_day - 1)))"

text \<open>
  \<^verbatim>\<open>parse_isoformat_date\<close>: the year; a hyphen if there is one, which the other fields
  must then have too; after \<^verbatim>\<open>W\<close> the week and, unless the string ends there, the
  day of the week; otherwise the month and the day.
\<close>

definition parse_isoformat_date :: "string \<Rightarrow> (nat \<times> nat \<times> nat) option" where
  "parse_isoformat_date dtstr =
     (case take_digits 4 dtstr of
        None \<Rightarrow> None
      | Some (y, r1) \<Rightarrow>
          (let uses_separator = (take 1 r1 = ''-'');
               r2 = (if uses_separator then drop 1 r1 else r1)
           in if take 1 r2 = ''W'' then
                (case take_digits 2 (drop 1 r2) of
                   None \<Rightarrow> None
                 | Some (iso_week, r3) \<Rightarrow>
                     if r3 = [] then iso_to_ymd y iso_week 1
                     else if uses_separator \<and> take 1 r3 \<noteq> ''-'' then None
                     else
                       (case take_digits 1 (if uses_separator then drop 1 r3 else r3) of
                          None \<Rightarrow> None
                        | Some (iso_day, r4) \<Rightarrow> iso_to_ymd y iso_week iso_day))
              else
                (case take_digits 2 r2 of
                   None \<Rightarrow> None
                 | Some (m, r3) \<Rightarrow>
                     if uses_separator \<and> take 1 r3 \<noteq> ''-'' then None
                     else
                       (case take_digits 2 (if uses_separator then drop 1 r3 else r3) of
                          None \<Rightarrow> None
                        | Some (d, r4) \<Rightarrow> Some (y, m, d)))))"

definition date_fromisoformat_py311 :: "string \<Rightarrow> error + date" where
  "date_fromisoformat_py311 s =
     (if utf8_length s = 7 \<or> utf8_length s = 8 \<or> utf8_length s = 10 then
        (case parse_isoformat_date s of
           None \<Rightarrow> Inl (ValueError ''Invalid isoformat string'')
         | Some (y, m, d) \<Rightarrow> new_date y m d)
      else Inl (ValueError ''Invalid isoformat string''))"

section \<open>Validation shapes\<close>

text \<open>What a caller can supply for a field: nothing, \<^verbatim>\<open>None\<close>, a string or a date.\<close>

datatype raw = Missing | Null | Str string | Date date

text \<open>
  A required \<^verbatim>\<open>str = Field(max_length=n)\<close>; the message of the failure on the left.
\<close>

fun validate_str :: "nat \<Rightarrow> raw \<Rightarrow> string + string" where
  "validate_str max_length Missing = Inl ''field required''"
| "validate_str max_length Null = Inl ''none is not an allowed value''"
| "validate_str max_length (Str s) =
     (if length s > max_length then Inl ''ensure this value has at most max_length characters''
      else Inr s)"
| "validate_str max_length (Date d) = Inl ''str type expected''"


text \<open>
  The validator \<^verbatim>\<open>check_date_format\<close> of \<^verbatim>\<open>ContactIn\<close>, run before the field's own
  validation (\<^verbatim>\<open>pre=True\<close>):
  \<^verbatim>\<open>
  if isinstance(birthday_date, str):
      if birthday_date == "":
          return None
      try:
          return date.fromisoformat(birthday_date)
      except ValueError:
          raise ValueError("Invalid date format. Required format: YYYY-MM-DD")
  return birthday_date
  \<close>
\<close>

fun ContactIn_check_date_format :: "(string \<Rightarrow> error + date) \<Rightarrow> raw \<Rightarrow> error + raw" where
  "ContactIn_check_date_format fromisoformat (Str birthday_date) =
     (if birthday_date = [] then Inr Null
      else
        (case fromisoformat birthday_date of
           Inr d \<Rightarrow> Inr (Date d)
         | Inl (ValueError m) \<Rightarrow> Inl (ValueError ''Invalid date format. Required format: YYYY-MM-DD'')
         | Inl e \<Rightarrow> Inl e))"
| "ContactIn_check_date_format fromisoformat birthday_date = Inr birthday_date"


text \<open>
  The field \<^verbatim>\<open>date_of_birth\<close> with default \<^verbatim>\<open>None\<close>: the default when nothing is
  supplied (validators do not run on defaults); otherwise the pre-validator, whose
  \<^verbatim>\<open>ValueError\<close> becomes the field's failure, then \<^verbatim>\<open>None\<close> or a date. A string never
  leaves the pre-validator.
\<close>

definition validate_date_of_birth :: "(raw \<Rightarrow> error + raw) \<Rightarrow> raw \<Rightarrow> string + date option" where
  "validate_date_of_birth check v =
     (case v of
        Missing \<Rightarrow> Inr None
      | _ \<Rightarrow>
        (case check v of
           Inl (ValueError m) \<Rightarrow> Inl m
         | Inl e \<Rightarrow> Inl ''validator failed''
         | Inr (Date d) \<Rightarrow> Inr (Some d)
         | Inr (Str s) \<Rightarrow> Inl ''invalid date format''
         | Inr other \<Rightarrow> Inr None))"

definition field_errors :: "string \<Rightarrow> string + 'a \<Rightarrow> (string \<times> string) list" where
  "field_errors name r = (case r of Inl m \<Rightarrow> [(name, m)] | Inr v \<Rightarrow> [])"

text \<open>What is supplied to build a \<^verbatim>\<open>ContactIn\<close>, a \<^verbatim>\<open>ContactUpdate\<close> or a \<^verbatim>\<open>ContactOut\<close>.\<close>

record ContactIn_raw =
  raw_first_name :: raw
  raw_last_name :: raw
  raw_email :: raw
  raw_phone_number :: raw
  raw_date_of_birth :: raw
  raw_additional_data :: raw


text \<open>
  \<^verbatim>\<open>ContactIn(**data)\<close> under an interpreter whose \<^verbatim>\<open>date.fromisoformat\<close> is
  \<open>fromisoformat\<close>: every field is validated, and the failures are raised together as
  one \<^verbatim>\<open>ValidationError\<close>. The construction takes no session.
\<close>

definition ContactIn_validate ::
  "(string \<Rightarrow> error + date) \<Rightarrow> ContactIn_raw \<Rightarrow> error + ContactIn" where
  "ContactIn_validate fromisoformat r =
     (case (validate_str 25 (raw_first_name r), validate_str 50 (raw_last_name r),
            validate_str 100 (raw_email r), validate_str 15 (raw_phone_number r),
            validate_date_of_birth (ContactIn_check_date_format fromisoformat)
              (raw_date_of_birth r),
            validate_str 500 (raw_additional_data r)) of
        (Inr fn, Inr ln, Inr em, Inr ph, Inr dob, Inr ad) \<Rightarrow>
          Inr \<lparr>in_first_name = fn, in_last_name = ln, in_email = em, in_phone_number = ph,
               in_date_of_birth = dob, in_additional_data = ad\<rparr>
      | (r1, r2, r3, r4, r5, r6) \<Rightarrow>
          Inl (ValidationError
                 (field_errors ''first_name'' r1 @ field_errors ''last_name'' r2 @
                  field_errors ''email'' r3 @ field_errors ''phone_number'' r4 @
                  field_errors ''date_of_birth'' r5 @ field_errors ''additional_data'' r6)))"


text \<open>
  \<^verbatim>\<open>class ContactOut(ContactIn): id: int\<close> with \<^verbatim>\<open>orm_mode\<close>: the fields and bounds of
  \<^verbatim>\<open>ContactIn\<close>, and the key.
\<close>

record ContactOut = ContactIn +
  out_id :: int

text \<open>
  \<^verbatim>\<open>ContactOut.from_orm(contact)\<close>: each field is read from the attribute of the same
  name of the row and validated as in \<^verbatim>\<open>ContactIn\<close>.
\<close>

definition ContactOut_from_orm ::
  "(string \<Rightarrow> error + date) \<Rightarrow> Contact \<Rightarrow> error + ContactOut" where
  "ContactOut_from_orm fromisoformat c =
     (case ContactIn_validate fromisoformat
             \<lparr>raw_first_name = Str (first_name c), raw_last_name = Str (last_name c),
              raw_email = Str (email c), raw_phone_number = Str (phone_number c),
              raw_date_of_birth = Date (date_of_birth c),
              raw_additional_data = Str (additional_data c)\<rparr> of
        Inl e \<Rightarrow> Inl e
      | Inr v \<Rightarrow> Inr (ContactIn.extend v (ContactOut.fields (id_pk c))))"

text \<open>What the columns of \<^verbatim>\<open>models.py\<close> admit: \<^verbatim>\<open>String(n)\<close> holds up to \<open>n\<close> characters.\<close>

definition Contact_columns_ok :: "Contact \<Rightarrow> bool" where
  "Contact_columns_ok c =
     (length (first_name c) \<le> 25 \<and> length (last_name c) \<le> 50 \<and> length (email c) \<le> 100 \<and>
      length (phone_number c) \<le> 15 \<and> length (additional_data c) \<le> 750)"

section \<open>The repository: search\<close>











section \<open>The repository: birthdays of the next week\<close>

text \<open>
  The filter of \<^verbatim>\<open>get_contacts_birthday_for_next_week\<close> on one row: the \<^verbatim>\<open>or_\<close> of its
  three \<^verbatim>\<open>and_\<close> groups over \<^verbatim>\<open>extract("month", ...)\<close> and \<^verbatim>\<open>extract("day", ...)\<close>.
\<close>

definition birthday_filter :: "date \<Rightarrow> date \<Rightarrow> Contact \<Rightarrow> bool" where
  "birthday_filter today next_week c =
     ((month today = month next_week \<and>
       month (date_of_birth c) = month today \<and>
       day (date_of_birth c) \<ge> day today \<and>
       day (date_of_birth c) \<le> day next_week)
      \<or>
      (month today \<noteq> month next_week \<and>
       month (date_of_birth c) = month today \<and>
       day (date_of_birth c) \<ge> day today)
      \<or>
      (month today \<noteq> month next_week \<and>
       month (date_of_birth c) = month next_week \<and>
       day (date_of_birth c) \<le> day next_week))"

text \<open>
  \<^verbatim>\<open>
  today = datetime.now().date()
  next_week = today + timedelta(days=7)
  query = db.query(Contact).filter(or_(...)).order_by("date_of_birth")
            .offset(skip).limit(limit).all()
  \<close>
  The clock's date is the argument \<open>today\<close>. Rows of equal date keep their table order.
\<close>

definition get_contacts_birthday_for_next_week ::
  "date \<Rightarrow> int \<Rightarrow> int \<Rightarrow> Session \<Rightarrow> error + Contact list" where
  "get_contacts_birthday_for_next_week today skip limit db =
     (case date_add_days today 7 of
        Inl e \<Rightarrow> Inl e
      | Inr next_week \<Rightarrow>
          paginate skip limit
            (sort_key (\<lambda>c. date_key (date_of_birth c))
               (filter (birthday_filter today next_week) (contacts db))))"

text \<open>
  The window as the specification words it, for a birth date \<open>b\<close>: within one month, the
  month is that month and the day lies between the two days; across two months, the
  month is today's with a day from today's on, or the next one's with a day up to its day.
\<close>

definition in_window_spec :: "date \<Rightarrow> date \<Rightarrow> date \<Rightarrow> bool" where
  "in_window_spec today nxt b =
     (if month today = month nxt
      then month b = month today \<and> day today \<le> day b \<and> day b \<le> day nxt
      else (month b = month today \<and> day today \<le> day b) \<or>
           (month b = month nxt \<and> day b \<le> day nxt))"

section \<open>Example data\<close>

text \<open>Five seeded contacts with the keys 1 to 5, in insertion order.\<close>

definition seeded :: "int \<Rightarrow> Contact" where
  "seeded i =
     \<lparr>id_pk = i, first_name = ''Ann'', last_name = ''Smith'', email = ''ann@example.com'',
      phone_number = ''5550100'', date_of_birth = \<lparr>year = 1990, month = 1, day = 30\<rparr>,
      additional_data = ''seed'', user_id = None\<rparr>"

definition seeded_db :: "Session" where
  "seeded_db = \<lparr>contacts = map seeded [1, 2, 3, 4, 5], next_id = 6\<rparr>"

text \<open>A stored contact whose notes have \<open>n\<close> characters, and what a caller supplies to create one.\<close>

definition long_notes :: "nat \<Rightarrow> Contact" where
  "long_notes n =
     \<lparr>id_pk = 7, first_name = ''Ann'', last_name = ''Smith'', email = ''ann@example.com'',
      phone_number = ''5550100'', date_of_birth = \<lparr>year = 1990, month = 1, day = 30\<rparr>,
      additional_data = replicate n (CHR ''x''), user_id = None\<rparr>"

definition raw_ann :: "string \<Rightarrow> string \<Rightarrow> ContactIn_raw" where
  "raw_ann birthday notes =
     \<lparr>raw_first_name = Str ''Ann'', raw_last_name = Str ''Smith'', raw_email = Str ''ann@example.com'',
      raw_phone_number = Str ''5550100'', raw_date_of_birth = Str birthday,
      raw_additional_data = Str notes\<rparr>"





text \<open>Contacts by date of birth, for the birthday window.\<close>

definition born :: "int \<Rightarrow> nat \<Rightarrow> nat \<Rightarrow> nat \<Rightarrow> Contact" where
  "born i y m d =
     \<lparr>id_pk = i, first_name = ''Ann'', last_name = ''Smith'', email = ''ann@example.com'',
      phone_number = ''5550100'', date_of_birth = \<lparr>year = y, month = m, day = d\<rparr>,
      additional_data = ''seed'', user_id = None\<rparr>"

definition birthday_db :: Session where
  "birthday_db =
     \<lparr>contacts = [born 1 2001 2 3, born 2 1990 1 30, born 3 1985 2 5, born 4 2000 1 20,
                  born 5 1970 1 29],
      next_id = 6\<rparr>"

text \<open>Within a month of days, the year changes at most once, into January.\<close>

definition near_year :: "nat \<Rightarrow> nat \<Rightarrow> date \<Rightarrow> bool" where
  "near_year y0 k d = (year d = y0 \<or> (year d = y0 + 1 \<and> month d = 1 \<and> day d \<le> k))"

section \<open>ISO dates\<close>

text \<open>
  \<open>date_fromisoformat_py310\<close> accepts exactly the strings that \<open>isoformat\<close> writes for the
  dates of the calendar, and returns the date written; \<open>date_fromisoformat_py311\<close>
  reads them to the same dates.
\<close>

lemma digit_char_props:
  "n < 10 \<Longrightarrow> is_digit (digit_char n) \<and> digit_value (digit_char n) = n"
  by (simp add: is_digit_def digit_value_def digit_char_def)

lemma digit_char_value: "is_digit c \<Longrightarrow> digit_char (digit_value c) = c \<and> digit_value c < 10"
  by (auto simp: is_digit_def digit_value_def digit_char_def)

lemma parse_digits4:
  "parse_digits [a, b, c, d] = Some n \<longleftrightarrow>
     is_digit a \<and> is_digit b \<and> is_digit c \<and> is_digit d \<and>
     n = 1000 * digit_value a + 100 * digit_value b + 10 * digit_value c + digit_value d"
  by (auto simp: parse_digits_def)

lemma parse_digits2:
  "parse_digits [a, b] = Some n \<longleftrightarrow>
     is_digit a \<and> is_digit b \<and> n = 10 * digit_value a + digit_value b"
  by (auto simp: parse_digits_def)

lemma digits4:
  fixes p q r t :: nat
  assumes "p < 10" "q < 10" "r < 10" "t < 10"
  shows "(1000 * p + 100 * q + 10 * r + t) div 1000 = p"
    and "(1000 * p + 100 * q + 10 * r + t) div 100 mod 10 = q"
    and "(1000 * p + 100 * q + 10 * r + t) div 10 mod 10 = r"
    and "(1000 * p + 100 * q + 10 * r + t) mod 10 = t"
proof -
  let ?n = "1000 * p + 100 * q + 10 * r + t"
  have m10: "\<And>k u. u < 10 \<Longrightarrow> (10 * k + u) mod 10 = (u::nat)" by simp
  show "?n div 1000 = p" using assms by (intro div_nat_eqI) simp_all
  have "?n div 100 = 10 * p + q" using assms by (intro div_nat_eqI) simp_all
  then show "?n div 100 mod 10 = q" using m10 [OF assms(2)] by (simp only:)
  have "?n div 10 = 10 * (10 * p + q) + r" using assms by (intro div_nat_eqI) simp_all
  then show "?n div 10 mod 10 = r" using m10 [OF assms(3)] by (simp only:)
  have "?n = 10 * (100 * p + 10 * q + r) + t" by simp
  then show "?n mod 10 = t" using m10 [OF assms(4)] by (simp only:)
qed

lemma digits2:
  fixes p q :: nat
  assumes "p < 10" "q < 10"
  shows "(10 * p + q) div 10 = p" and "(10 * p + q) mod 10 = q"
  using assms by simp_all

lemma compose4:
  fixes n :: nat
  shows "1000 * (n div 1000) + 100 * (n div 100 mod 10) + 10 * (n div 10 mod 10) + n mod 10 = n"
proof -
  have lin: "\<And>a b c e u v w :: nat.
      a = 10 * b + u \<Longrightarrow> b = 10 * c + v \<Longrightarrow> c = 10 * e + w \<Longrightarrow>
      1000 * e + 100 * w + 10 * v + u = a"
    by simp
  have a: "n = 10 * (n div 10) + n mod 10" by simp
  have b: "n div 10 = 10 * (n div 10 div 10) + n div 10 mod 10" by simp
  have c: "n div 10 div 10 = 10 * (n div 10 div 10 div 10) + n div 10 div 10 mod 10" by simp
  have d: "n div 10 div 10 = n div 100" "n div 100 div 10 = n div 1000"
    by (simp_all add: div_mult2_eq[symmetric])
  show ?thesis using lin [OF a b c] by (simp only: d)
qed

lemma compose2:
  fixes n :: nat
  shows "10 * (n div 10) + n mod 10 = n"
  by simp

lemma length10:
  "length s = 10 \<Longrightarrow> \<exists>a b c d e f g h i j. s = [a, b, c, d, e, f, g, h, i, j]"
  by (auto simp: length_Suc_conv eval_nat_numeral)


lemma fromiso_Inr:
  assumes "date_fromisoformat_py310 s = Inr d"
  shows "valid_date d \<and> s = isoformat d"
proof -
  have len: "length s = 10" using assms by (auto simp: date_fromisoformat_py310_def split: if_splits)
  from length10 [OF len] obtain a b c e f g h i j k where s: "s = [a, b, c, e, f, g, h, i, j, k]"
    by (elim exE)
  from assms obtain y m dd where
    p: "parse_digits [a, b, c, e] = Some y" "parse_digits [g, h] = Some m" "parse_digits [j, k] = Some dd"
    and sep: "f = CHR ''-''" "i = CHR ''-''" and nd: "new_date y m dd = Inr d"
    unfolding s date_fromisoformat_py310_def by (auto split: option.splits if_splits)
  have v: "valid_date d" and d: "d = \<lparr>year = y, month = m, day = dd\<rparr>"
    using nd by (auto simp: new_date_def split: if_splits)
  have "[a, b, c, e] = [digit_char (y div 1000), digit_char (y div 100 mod 10),
      digit_char (y div 10 mod 10), digit_char (y mod 10)]"
    using p(1) digit_char_value [of a] digit_char_value [of b] digit_char_value [of c] digit_char_value [of e]
    unfolding parse_digits4 by (simp add: digits4)
  moreover have "[g, h] = [digit_char (m div 10), digit_char (m mod 10)]"
    using p(2) digit_char_value [of g] digit_char_value [of h]
    unfolding parse_digits2 by (simp add: digits2)
  moreover have "[j, k] = [digit_char (dd div 10), digit_char (dd mod 10)]"
    using p(3) digit_char_value [of j] digit_char_value [of k]
    unfolding parse_digits2 by (simp add: digits2)
  ultimately have "s = isoformat d"
    unfolding s d isoformat_def using sep by simp
  with v show ?thesis by simp
qed




lemma digit_not_separator: "is_digit c \<Longrightarrow> c \<noteq> CHR ''W'' \<and> c \<noteq> CHR ''-''"
  by (auto simp: is_digit_def)

lemma of_char_digit_char: "n < 10 \<Longrightarrow> (of_char (digit_char n) :: nat) = 48 + n"
  by (simp add: digit_char_def)

lemma utf8_length_isoformat:
  assumes "valid_date d"
  shows "utf8_length (isoformat d) = 10"
proof -
  have y: "year d < 10000" and m: "month d < 100" and dd: "day d < 100"
    using assms by (auto simp: valid_date_def days_in_month_def split: if_splits)
  have c: "\<And>k. k < 10 \<Longrightarrow> (of_char (digit_char k) :: nat) < 128"
    by (simp add: of_char_digit_char)
  have "year d div 1000 < 10" using y by simp
  note c1 = c [OF this]
  have "month d div 10 < 10" using m by simp
  note c2 = c [OF this]
  have "day d div 10 < 10" using dd by simp
  note c3 = c [OF this]
  have c4: "\<And>k. (of_char (digit_char (k mod 10)) :: nat) < 128"
    by (rule c) simp
  have "\<forall>c\<in>set (isoformat d). (of_char c :: nat) < 128"
    using c1 c2 c3 c4 by (simp add: isoformat_def)
  then have "filter (\<lambda>c. 128 \<le> (of_char c :: nat)) (isoformat d) = []"
    by (simp add: filter_empty_conv not_le)
  then show ?thesis by (simp add: utf8_length_def isoformat_def)
qed

lemma isoformat_fields:
  assumes "valid_date d"
  shows "parse_digits [digit_char (year d div 1000), digit_char (year d div 100 mod 10),
           digit_char (year d div 10 mod 10), digit_char (year d mod 10)] = Some (year d)"
    and "parse_digits [digit_char (month d div 10), digit_char (month d mod 10)] = Some (month d)"
    and "parse_digits [digit_char (day d div 10), digit_char (day d mod 10)] = Some (day d)"
    and "is_digit (digit_char (month d div 10))"
proof -
  have y: "year d < 10000" and m: "month d < 100" and dd: "day d < 100"
    using assms by (auto simp: valid_date_def days_in_month_def split: if_splits)
  have dy: "year d div 1000 < 10" "year d div 100 mod 10 < 10" "year d div 10 mod 10 < 10"
    "year d mod 10 < 10"
    using y by auto
  have dm: "month d div 10 < 10" "month d mod 10 < 10" using m by auto
  have ddd: "day d div 10 < 10" "day d mod 10 < 10" using dd by auto
  show "parse_digits [digit_char (year d div 1000), digit_char (year d div 100 mod 10),
      digit_char (year d div 10 mod 10), digit_char (year d mod 10)] = Some (year d)"
    unfolding parse_digits4 using dy digit_char_props compose4 [of "year d"] by simp
  show "parse_digits [digit_char (month d div 10), digit_char (month d mod 10)] = Some (month d)"
    unfolding parse_digits2 using dm digit_char_props by simp
  show "parse_digits [digit_char (day d div 10), digit_char (day d mod 10)] = Some (day d)"
    unfolding parse_digits2 using ddd digit_char_props by simp
  show "is_digit (digit_char (month d div 10))"
    using dm digit_char_props by simp
qed

lemma py311_isoformat:
  assumes "valid_date d"
  shows "date_fromisoformat_py311 (isoformat d) = Inr d"
proof -
  note f = isoformat_fields [OF assms]
  have w: "digit_char (month d div 10) \<noteq> CHR ''W''"
    using digit_not_separator [OF f(4)] by simp
  have p: "parse_isoformat_date (isoformat d) = Some (year d, month d, day d)"
    using f(1-3) w
    by (simp add: parse_isoformat_date_def take_digits_def isoformat_def Let_def)
  show ?thesis
    using assms utf8_length_isoformat [OF assms] p
    by (simp add: date_fromisoformat_py311_def new_date_def valid_date_def)
qed





lemma py310_example:
  "date_fromisoformat_py310 ''1990-01-30'' = Inr \<lparr>year = 1990, month = 1, day = 30\<rparr>"
  by (simp add: date_fromisoformat_py310_def parse_digits_def is_digit_def digit_value_def
      new_date_def valid_date_def days_in_month_def)

lemma isoformat_example: "''1990-01-30'' = isoformat \<lparr>year = 1990, month = 1, day = 30\<rparr>"
  using py310_example fromiso_Inr by blast

lemma py311_example:
  "date_fromisoformat_py311 ''1990-01-30'' = Inr \<lparr>year = 1990, month = 1, day = 30\<rparr>"
proof -
  have "valid_date \<lparr>year = 1990, month = 1, day = 30\<rparr>"
    by (simp add: valid_date_def days_in_month_def)
  then show ?thesis using py311_isoformat isoformat_example by metis
qed

section \<open>Lookup by key\<close>

lemma first_by_id_None: "cid \<notin> id_pk ` set (contacts db) \<Longrightarrow> first_by_id cid db = None"
  by (auto simp: first_by_id_def find_None_iff)

lemma first_by_id_Some:
  "cid \<in> id_pk ` set (contacts db) \<Longrightarrow> \<exists>c. first_by_id cid db = Some c \<and> id_pk c = cid \<and> c \<in> set (contacts db)"
  unfolding first_by_id_def
  by (cases "find (\<lambda>c. id_pk c = cid) (contacts db)") (auto simp: find_None_iff find_Some_iff)

lemma first_by_id_delete_row: "first_by_id (id_pk c) (delete_row c db) = None"
  by (auto simp: first_by_id_def delete_row_def find_None_iff)

section \<open>Listing\<close>

text \<open>
  Claim C9. For non-negative \<open>skip\<close> and \<open>limit\<close>, \<open>get_contacts\<close> returns the rows of
  the table after the first \<open>skip\<close>, at most \<open>limit\<close> of them, in table order and
  whatever their owner: the table is the rows skipped, then the result, then the rest.
  Over five seeded contacts, \<open>skip = 2\<close> and \<open>limit = 2\<close> give the third and the fourth.
\<close>

theorem get_contacts_pagination:
  assumes "0 \<le> skip" and "0 \<le> limit"
  shows "\<exists>res. get_contacts skip limit db = Inr res \<and>
           res = take (nat limit) (drop (nat skip) (contacts db)) \<and>
           contacts db = take (nat skip) (contacts db) @ res @ drop (nat skip + nat limit) (contacts db) \<and>
           length res = min (nat limit) (length (contacts db) - nat skip)"
proof -
  let ?rows = "contacts db"
  have run: "get_contacts skip limit db = Inr (take (nat limit) (drop (nat skip) ?rows))"
    using assms by (simp add: get_contacts_def paginate_def)
  have "drop (nat skip) ?rows =
          take (nat limit) (drop (nat skip) ?rows) @ drop (nat limit) (drop (nat skip) ?rows)"
    by (simp only: append_take_drop_id)
  then have "take (nat skip) ?rows @ drop (nat skip) ?rows =
          take (nat skip) ?rows @ take (nat limit) (drop (nat skip) ?rows) @
          drop (nat limit) (drop (nat skip) ?rows)"
    by (simp only:)
  then have split: "?rows = take (nat skip) ?rows @ take (nat limit) (drop (nat skip) ?rows) @
          drop (nat skip + nat limit) ?rows"
    by (simp only: append_take_drop_id drop_drop add.commute)
  show ?thesis using run split by (simp add: min_def)
qed

theorem get_contacts_pagination_witness:
  "(0::int) \<le> 2 \<and> get_contacts 2 2 seeded_db = Inr [seeded 3, seeded 4]"
  using get_contacts_pagination [of 2 2 seeded_db]
  by (simp add: seeded_db_def)

section \<open>Removal\<close>

text \<open>
  Claim C5. When a row has the key, \<open>remove_contact\<close> returns that row (the one
  \<open>get_contact\<close> finds), deletes the rows of that key and no other, and \<open>get_contact\<close>
  on the key then returns nothing; when no row has the key, it returns nothing,
  raises no error and leaves the session as it was.
\<close>

theorem remove_contact_deletes:
  "(cid \<in> id_pk ` set (contacts db) \<longrightarrow>
      (\<exists>c db'. remove_contact cid db = Inr (Some c, db') \<and> get_contact cid db = Inr (Some c) \<and>
         id_pk c = cid \<and> contacts db' = filter (\<lambda>r. id_pk r \<noteq> cid) (contacts db) \<and>
         next_id db' = next_id db \<and> get_contact cid db' = Inr None)) \<and>
   (cid \<notin> id_pk ` set (contacts db) \<longrightarrow> remove_contact cid db = Inr (None, db))"
proof (intro conjI impI)
  assume "cid \<in> id_pk ` set (contacts db)"
  then obtain c where c: "first_by_id cid db = Some c" "id_pk c = cid"
    using first_by_id_Some by blast
  have "remove_contact cid db = Inr (Some c, delete_row c db)"
    using c by (simp add: remove_contact_def)
  moreover have "get_contact cid (delete_row c db) = Inr None"
    using first_by_id_delete_row [of c db] c by (simp add: get_contact_def)
  moreover have "contacts (delete_row c db) = filter (\<lambda>r. id_pk r \<noteq> cid) (contacts db)"
    using c by (simp add: delete_row_def)
  moreover have "next_id (delete_row c db) = next_id db"
    by (simp add: delete_row_def)
  ultimately show "\<exists>c db'. remove_contact cid db = Inr (Some c, db') \<and> get_contact cid db = Inr (Some c) \<and>
         id_pk c = cid \<and> contacts db' = filter (\<lambda>r. id_pk r \<noteq> cid) (contacts db) \<and>
         next_id db' = next_id db \<and> get_contact cid db' = Inr None"
    using c by (simp add: get_contact_def)
next
  assume "cid \<notin> id_pk ` set (contacts db)"
  then show "remove_contact cid db = Inr (None, db)"
    by (simp add: remove_contact_def first_by_id_None)
qed

theorem remove_contact_deletes_witness:
  "remove_contact 2 seeded_db =
     Inr (Some (seeded 2), \<lparr>contacts = map seeded [1, 3, 4, 5], next_id = 6\<rparr>) \<and>
   get_contact 2 \<lparr>contacts = map seeded [1, 3, 4, 5], next_id = 6\<rparr> = Inr None \<and>
   remove_contact 9 seeded_db = Inr (None, seeded_db)"
  using remove_contact_deletes [of 2 seeded_db] remove_contact_deletes [of 9 seeded_db]
  by (auto simp: seeded_db_def seeded_def get_contact_def first_by_id_def)

section \<open>Keys that are not in the table\<close>

text \<open>
  Claim C6. For a key no row has, \<open>get_contact\<close>, \<open>remove_contact\<close> and
  \<open>update_contact\<close> each return nothing, without an error and without a change of
  the session.
\<close>

theorem not_found_is_absent:
  assumes "cid \<notin> id_pk ` set (contacts db)"
  shows "get_contact cid db = Inr None \<and> remove_contact cid db = Inr (None, db) \<and>
         update_contact cid body db = Inr (None, db)"
  using assms
  by (simp add: get_contact_def remove_contact_def update_contact_def first_by_id_None)

theorem not_found_is_absent_witness:
  "get_contact 9 seeded_db = Inr None \<and> remove_contact 9 seeded_db = Inr (None, seeded_db) \<and>
   update_contact 9 \<lparr>upd_first_name = Some ''Bea'', upd_lastname = None, upd_email = None,
       upd_phone_number = None, upd_date_of_birth = None, upd_additional_data = None\<rparr> seeded_db
     = Inr (None, seeded_db)"
  using not_found_is_absent [of 9 seeded_db]
  by (simp add: seeded_db_def seeded_def)

section \<open>Creation and update\<close>

text \<open>
  The constructor call of \<open>create_contact\<close> passes the keyword \<^verbatim>\<open>name\<close>, which is no
  attribute of \<^verbatim>\<open>Contact\<close>: every call raises \<^verbatim>\<open>TypeError\<close> before the session is
  used. \<open>update_contact\<close> reads \<^verbatim>\<open>body.name\<close>, which is no field of
  \<^verbatim>\<open>ContactUpdate\<close>: every call that finds a row raises \<^verbatim>\<open>AttributeError\<close>.
\<close>

lemma create_contact_raises: "create_contact body db = Inl (TypeError ''name'')"
  by (simp add: create_contact_def Contact_attributes_def)

lemma update_contact_found_raises:
  "first_by_id cid db = Some row \<Longrightarrow> update_contact cid body db = Inl (AttributeError ''name'')"
  by (simp add: update_contact_def assign_if_def ContactUpdate_getattr_def)

text \<open>
  Claim C1 (create inserts one row, returns it with its key, and \<open>get_contact\<close> finds
  it) against the code: the input below passes the validation of \<^verbatim>\<open>ContactIn\<close>, and
  \<open>create_contact\<close> on it and the empty table returns the error
  \<^verbatim>\<open>TypeError\<close> for the keyword \<^verbatim>\<open>name\<close>: no row is inserted and no entity returned.
\<close>

theorem create_contact_valid_input_raises:
  "ContactIn_validate date_fromisoformat_py310
     \<lparr>raw_first_name = Str ''Ann'', raw_last_name = Str ''Smith'', raw_email = Str ''ann@example.com'',
      raw_phone_number = Str ''5550100'', raw_date_of_birth = Str ''1990-01-30'',
      raw_additional_data = Str ''seed''\<rparr>
     = Inr \<lparr>in_first_name = ''Ann'', in_last_name = ''Smith'', in_email = ''ann@example.com'',
           in_phone_number = ''5550100'', in_date_of_birth = Some \<lparr>year = 1990, month = 1, day = 30\<rparr>,
           in_additional_data = ''seed''\<rparr> \<and>
   ContactIn_validate date_fromisoformat_py311
     \<lparr>raw_first_name = Str ''Ann'', raw_last_name = Str ''Smith'', raw_email = Str ''ann@example.com'',
      raw_phone_number = Str ''5550100'', raw_date_of_birth = Str ''1990-01-30'',
      raw_additional_data = Str ''seed''\<rparr>
     = Inr \<lparr>in_first_name = ''Ann'', in_last_name = ''Smith'', in_email = ''ann@example.com'',
           in_phone_number = ''5550100'', in_date_of_birth = Some \<lparr>year = 1990, month = 1, day = 30\<rparr>,
           in_additional_data = ''seed''\<rparr> \<and>
   create_contact
     \<lparr>in_first_name = ''Ann'', in_last_name = ''Smith'', in_email = ''ann@example.com'',
      in_phone_number = ''5550100'', in_date_of_birth = Some \<lparr>year = 1990, month = 1, day = 30\<rparr>,
      in_additional_data = ''seed''\<rparr> \<lparr>contacts = [], next_id = 1\<rparr>
     = Inl (TypeError ''name'')"
  by (simp add: create_contact_raises ContactIn_validate_def validate_date_of_birth_def
      py310_example py311_example)

text \<open>
  Claim C2 (update overwrites the supplied non-empty fields and returns the entity;
  an empty update changes nothing) against the code: on the seeded table, where the
  key 2 is present, \<open>update_contact\<close> returns the error \<^verbatim>\<open>AttributeError\<close> for
  \<^verbatim>\<open>name\<close>, with the empty update and with an update of the first name alike.
\<close>

theorem update_contact_present_id_raises:
  "get_contact 2 seeded_db = Inr (Some (seeded 2)) \<and>
   update_contact 2 \<lparr>upd_first_name = None, upd_lastname = None, upd_email = None,
       upd_phone_number = None, upd_date_of_birth = None, upd_additional_data = None\<rparr> seeded_db
     = Inl (AttributeError ''name'') \<and>
   update_contact 2 \<lparr>upd_first_name = Some ''Bea'', upd_lastname = None, upd_email = None,
       upd_phone_number = None, upd_date_of_birth = None, upd_additional_data = None\<rparr> seeded_db
     = Inl (AttributeError ''name'')"
  by (simp add: update_contact_found_raises get_contact_def first_by_id_def seeded_db_def seeded_def)

section \<open>Validation of the birth date\<close>












section \<open>Length bounds of the input and output shapes\<close>

lemma ContactIn_validate_strs:
  assumes "validate_date_of_birth (ContactIn_check_date_format fromisoformat) dob = Inr b"
  shows "ContactIn_validate fromisoformat
           \<lparr>raw_first_name = Str fn, raw_last_name = Str ln, raw_email = Str em,
            raw_phone_number = Str ph, raw_date_of_birth = dob, raw_additional_data = Str ad\<rparr> =
         (if length fn \<le> 25 \<and> length ln \<le> 50 \<and> length em \<le> 100 \<and> length ph \<le> 15 \<and>
             length ad \<le> 500
          then Inr \<lparr>in_first_name = fn, in_last_name = ln, in_email = em, in_phone_number = ph,
                    in_date_of_birth = b, in_additional_data = ad\<rparr>
          else Inl (ValidationError
                 ((if length fn \<le> 25 then [] else [(''first_name'', ''ensure this value has at most max_length characters'')]) @
                  (if length ln \<le> 50 then [] else [(''last_name'', ''ensure this value has at most max_length characters'')]) @
                  (if length em \<le> 100 then [] else [(''email'', ''ensure this value has at most max_length characters'')]) @
                  (if length ph \<le> 15 then [] else [(''phone_number'', ''ensure this value has at most max_length characters'')]) @
                  (if length ad \<le> 500 then [] else [(''additional_data'', ''ensure this value has at most max_length characters'')]))))"
  using assms by (simp add: ContactIn_validate_def field_errors_def not_le)

text \<open>
  Claim C4, amended. With strings supplied for the five text fields and an acceptable
  birth date, \<^verbatim>\<open>ContactIn\<close> accepts the input if and only if first name, last name,
  email, phone and notes have at most 25, 50, 100, 15 and 500 characters; otherwise
  its construction, which takes no session, fails with a \<^verbatim>\<open>ValidationError\<close> that
  names exactly the fields that are too long. The bound on the notes is the 500 of
  \<^verbatim>\<open>schemas.py\<close>, not the 750 of the column.
\<close>

theorem ContactIn_length_bounds:
  assumes "validate_date_of_birth (ContactIn_check_date_format fromisoformat) dob = Inr b"
  shows "(ContactIn_validate fromisoformat
            \<lparr>raw_first_name = Str fn, raw_last_name = Str ln, raw_email = Str em,
             raw_phone_number = Str ph, raw_date_of_birth = dob, raw_additional_data = Str ad\<rparr> =
          Inr \<lparr>in_first_name = fn, in_last_name = ln, in_email = em, in_phone_number = ph,
               in_date_of_birth = b, in_additional_data = ad\<rparr>
          \<longleftrightarrow>
          length fn \<le> 25 \<and> length ln \<le> 50 \<and> length em \<le> 100 \<and> length ph \<le> 15 \<and>
          length ad \<le> 500) \<and>
         (\<not> (length fn \<le> 25 \<and> length ln \<le> 50 \<and> length em \<le> 100 \<and> length ph \<le> 15 \<and>
             length ad \<le> 500) \<longrightarrow>
          (\<exists>errs. ContactIn_validate fromisoformat
                    \<lparr>raw_first_name = Str fn, raw_last_name = Str ln, raw_email = Str em,
                     raw_phone_number = Str ph, raw_date_of_birth = dob,
                     raw_additional_data = Str ad\<rparr> = Inl (ValidationError errs) \<and>
             errs \<noteq> [] \<and>
             (25 < length fn \<longleftrightarrow> ''first_name'' \<in> fst ` set errs) \<and>
             (50 < length ln \<longleftrightarrow> ''last_name'' \<in> fst ` set errs) \<and>
             (100 < length em \<longleftrightarrow> ''email'' \<in> fst ` set errs) \<and>
             (15 < length ph \<longleftrightarrow> ''phone_number'' \<in> fst ` set errs) \<and>
             (500 < length ad \<longleftrightarrow> ''additional_data'' \<in> fst ` set errs)))"
  unfolding ContactIn_validate_strs [OF assms]
  by (auto simp: not_le)

theorem ContactIn_length_bounds_witness:
  "ContactIn_validate date_fromisoformat_py310
     (raw_ann ''1990-01-30'' (replicate 500 (CHR ''x''))) =
     Inr \<lparr>in_first_name = ''Ann'', in_last_name = ''Smith'', in_email = ''ann@example.com'',
          in_phone_number = ''5550100'', in_date_of_birth = Some \<lparr>year = 1990, month = 1, day = 30\<rparr>,
          in_additional_data = replicate 500 (CHR ''x'')\<rparr> \<and>
   ContactIn_validate date_fromisoformat_py311
     (raw_ann ''1990-01-30'' (replicate 500 (CHR ''x''))) =
     Inr \<lparr>in_first_name = ''Ann'', in_last_name = ''Smith'', in_email = ''ann@example.com'',
          in_phone_number = ''5550100'', in_date_of_birth = Some \<lparr>year = 1990, month = 1, day = 30\<rparr>,
          in_additional_data = replicate 500 (CHR ''x'')\<rparr>"
proof -
  have d: "validate_date_of_birth (ContactIn_check_date_format date_fromisoformat_py310)
      (Str ''1990-01-30'') = Inr (Some \<lparr>year = 1990, month = 1, day = 30\<rparr>)"
    by (simp add: validate_date_of_birth_def py310_example)
  have e: "validate_date_of_birth (ContactIn_check_date_format date_fromisoformat_py311)
      (Str ''1990-01-30'') = Inr (Some \<lparr>year = 1990, month = 1, day = 30\<rparr>)"
    by (simp add: validate_date_of_birth_def py311_example)
  show ?thesis
    using ContactIn_length_bounds [OF d, of "''Ann''" "''Smith''" "''ann@example.com''"
        "''5550100''" "replicate 500 (CHR ''x'')"]
      ContactIn_length_bounds [OF e, of "''Ann''" "''Smith''" "''ann@example.com''"
        "''5550100''" "replicate 500 (CHR ''x'')"]
    by (simp add: raw_ann_def)
qed

text \<open>
  Claim C4 as stated (notes of up to 750 characters are accepted) fails: notes of 501
  characters are within 750 and are rejected.
\<close>

theorem ContactIn_notes_bound_counterexample:
  "length (replicate 501 (CHR ''x'')) \<le> 750 \<and>
   ContactIn_validate date_fromisoformat_py310
     (raw_ann ''1990-01-30'' (replicate 501 (CHR ''x''))) =
     Inl (ValidationError
            [(''additional_data'', ''ensure this value has at most max_length characters'')]) \<and>
   ContactIn_validate date_fromisoformat_py311
     (raw_ann ''1990-01-30'' (replicate 501 (CHR ''x''))) =
     Inl (ValidationError
            [(''additional_data'', ''ensure this value has at most max_length characters'')])"
  by (simp add: raw_ann_def ContactIn_validate_def field_errors_def validate_date_of_birth_def
      py310_example py311_example)

text \<open>
  Claim C10. \<^verbatim>\<open>ContactOut\<close> inherits the bound of 500 characters on the notes, and the
  column admits 750: for a contact that fits its columns and whose notes have more
  than 500 characters (so between 501 and 750), \<^verbatim>\<open>ContactOut.from_orm\<close> fails with a
  \<^verbatim>\<open>ValidationError\<close> on \<^verbatim>\<open>additional_data\<close>.
\<close>

theorem ContactOut_rejects_long_notes:
  assumes "Contact_columns_ok c" and "500 < length (additional_data c)"
  shows "length (additional_data c) \<le> 750 \<and>
         ContactOut_from_orm fromisoformat c =
           Inl (ValidationError
                  [(''additional_data'', ''ensure this value has at most max_length characters'')])"
proof -
  have d: "validate_date_of_birth (ContactIn_check_date_format fromisoformat) (Date (date_of_birth c)) =
      Inr (Some (date_of_birth c))"
    by (simp add: validate_date_of_birth_def)
  show ?thesis
    using assms unfolding ContactOut_from_orm_def ContactIn_validate_strs [OF d]
    by (simp add: Contact_columns_ok_def)
qed

theorem ContactOut_rejects_long_notes_witness:
  "Contact_columns_ok (long_notes 600) \<and>
   row_of_instance 7 (instance_of_row (long_notes 600)) = Inr (long_notes 600) \<and>
   ContactOut_from_orm date_fromisoformat_py310 (long_notes 600) =
     Inl (ValidationError
            [(''additional_data'', ''ensure this value has at most max_length characters'')]) \<and>
   ContactOut_from_orm date_fromisoformat_py311 (long_notes 600) =
     Inl (ValidationError
            [(''additional_data'', ''ensure this value has at most max_length characters'')])"
proof -
  have ok: "Contact_columns_ok (long_notes 600)"
    by (simp add: Contact_columns_ok_def long_notes_def)
  have len: "500 < length (additional_data (long_notes 600))"
    by (simp add: long_notes_def)
  have store: "row_of_instance 7 (instance_of_row (long_notes 600)) = Inr (long_notes 600)"
    by (simp add: row_of_instance_def instance_of_row_def str_column_def date_column_def
        fk_column_def long_notes_def)
  show ?thesis
    using ContactOut_rejects_long_notes [OF ok len, of date_fromisoformat_py310]
      ContactOut_rejects_long_notes [OF ok len, of date_fromisoformat_py311] ok store
    by simp
qed

section \<open>Search by keyword\<close>

















section \<open>Birthdays of the next week\<close>

lemma birthday_filter_spec:
  "birthday_filter today nxt c = in_window_spec today nxt (date_of_birth c)"
  by (auto simp: birthday_filter_def in_window_spec_def)

lemma days_in_month_ge: "28 \<le> days_in_month y m"
  by (simp add: days_in_month_def)

lemma next_day_valid:
  assumes "valid_date d" and "year (next_day d) \<le> 9999"
  shows "valid_date (next_day d)"
proof (cases "day d < days_in_month (year d) (month d)")
  case True
  with assms(1) show ?thesis by (simp add: next_day_def valid_date_def)
next
  case False
  note last = this
  show ?thesis
  proof (cases "month d < 12")
    case True
    with last assms(1) days_in_month_ge [of "year d" "month d + 1"] show ?thesis
      by (simp add: next_day_def valid_date_def)
  next
    case False
    with last assms days_in_month_ge [of "year d + 1" 1] show ?thesis
      by (simp add: next_day_def valid_date_def)
  qed
qed

lemma date_add_days_valid:
  "valid_date d \<Longrightarrow> date_add_days d n = Inr nxt \<Longrightarrow> valid_date nxt"
proof (induction n arbitrary: d)
  case 0
  then show ?case by simp
next
  case (Suc n)
  from Suc.prems(2) have y: "year (next_day d) \<le> 9999"
    and r: "date_add_days (next_day d) n = Inr nxt"
    by (simp_all split: if_splits)
  from Suc.prems(1) y have "valid_date (next_day d)" by (rule next_day_valid)
  then show ?case using r by (rule Suc.IH)
qed

lemma near_year_next_day:
  assumes "near_year y0 k d" and "k < 31"
  shows "near_year y0 (Suc k) (next_day d)"
proof (cases "year d = y0")
  case True
  then show ?thesis by (simp add: near_year_def next_day_def)
next
  case False
  with assms(1) have j: "year d = y0 + 1" "month d = 1" "day d \<le> k"
    by (simp_all add: near_year_def)
  with assms(2) have "day d < days_in_month (year d) (month d)"
    by (simp add: days_in_month_def)
  with j show ?thesis by (simp add: near_year_def next_day_def)
qed

lemma date_add_days_total:
  "near_year y0 k d \<Longrightarrow> y0 < 9999 \<Longrightarrow> k + n \<le> 31 \<Longrightarrow> \<exists>nxt. date_add_days d n = Inr nxt"
proof (induction n arbitrary: d k)
  case 0
  show ?case by simp
next
  case (Suc n)
  from Suc.prems(1,3) have nd: "near_year y0 (Suc k) (next_day d)"
    by (intro near_year_next_day) simp_all
  with Suc.prems(2) have y: "\<not> 9999 < year (next_day d)"
    by (auto simp: near_year_def)
  from nd Suc.prems(2,3) have "\<exists>nxt. date_add_days (next_day d) n = Inr nxt"
    by (intro Suc.IH [of "Suc k"]) simp_all
  with y show ?case by simp
qed

lemma next_week_exists:
  assumes "valid_date today" and "year today < 9999"
  shows "\<exists>nxt. date_add_days today 7 = Inr nxt \<and> valid_date nxt"
proof -
  have "near_year (year today) 0 today" by (simp add: near_year_def)
  from date_add_days_total [OF this assms(2), of 7]
  obtain nxt where "date_add_days today 7 = Inr nxt" by auto
  with assms(1) date_add_days_valid show ?thesis by blast
qed

text \<open>
  Claim C3. For a date \<open>today\<close> of the calendar before the year 9999, the date
  \<open>next = today + 7\<close> days exists, and for non-negative \<open>skip\<close> and \<open>limit\<close> the
  function returns the page \<open>skip\<close>, \<open>limit\<close> of the list, ascending by date of birth, of
  exactly the contacts whose birth date lies in the window as the specification words
  it: in one month, that month and a day from today's to next's; across two months,
  today's month from today's day on, or next's month up to next's day. With today
  2024-01-28, birth dates 01-30 and 01-29 and 02-03 are in, 02-05 and 01-20 are out.
\<close>

theorem birthdays_in_window:
  assumes "valid_date today" and "year today < 9999" and "0 \<le> skip" and "0 \<le> limit"
  shows "\<exists>nxt full.
           date_add_days today 7 = Inr nxt \<and> valid_date nxt \<and>
           full = sort_key (\<lambda>c. date_key (date_of_birth c))
                    (filter (\<lambda>c. in_window_spec today nxt (date_of_birth c)) (contacts db)) \<and>
           get_contacts_birthday_for_next_week today skip limit db =
             Inr (take (nat limit) (drop (nat skip) full)) \<and>
           sorted (map (\<lambda>c. date_key (date_of_birth c)) full) \<and>
           set full = {c \<in> set (contacts db). in_window_spec today nxt (date_of_birth c)}"
proof -
  from next_week_exists [OF assms(1,2)] obtain nxt
    where n: "date_add_days today 7 = Inr nxt" and v: "valid_date nxt" by blast
  let ?full = "sort_key (\<lambda>c. date_key (date_of_birth c))
                 (filter (\<lambda>c. in_window_spec today nxt (date_of_birth c)) (contacts db))"
  have f: "filter (birthday_filter today nxt) (contacts db) =
      filter (\<lambda>c. in_window_spec today nxt (date_of_birth c)) (contacts db)"
  proof -
    have "birthday_filter today nxt = (\<lambda>c. in_window_spec today nxt (date_of_birth c))"
      by (rule ext) (rule birthday_filter_spec)
    then show ?thesis by (simp only:)
  qed
  have run: "get_contacts_birthday_for_next_week today skip limit db =
      Inr (take (nat limit) (drop (nat skip) ?full))"
    using assms(3,4) by (simp add: get_contacts_birthday_for_next_week_def n f paginate_def)
  have s: "sorted (map (\<lambda>c. date_key (date_of_birth c)) ?full)"
    by (rule sorted_sort_key)
  have m: "set ?full = {c \<in> set (contacts db). in_window_spec today nxt (date_of_birth c)}"
    by simp
  from n v run s m show ?thesis by blast
qed

theorem birthdays_in_window_witness:
  "date_add_days \<lparr>year = 2024, month = 1, day = 28\<rparr> 7 = Inr \<lparr>year = 2024, month = 2, day = 4\<rparr> \<and>
   get_contacts_birthday_for_next_week \<lparr>year = 2024, month = 1, day = 28\<rparr> 0 10 birthday_db =
     Inr [born 5 1970 1 29, born 2 1990 1 30, born 1 2001 2 3] \<and>
   get_contacts_birthday_for_next_week \<lparr>year = 2024, month = 1, day = 28\<rparr> 1 1 birthday_db =
     Inr [born 2 1990 1 30]"
proof -
  let ?today = "\<lparr>year = 2024, month = 1, day = 28\<rparr>"
  let ?next = "\<lparr>year = 2024, month = 2, day = 4\<rparr>"
  have v: "valid_date ?today" by (simp add: valid_date_def days_in_month_def)
  have y: "year ?today < 9999" by simp
  have seven: "(7::nat) = Suc (Suc (Suc (Suc (Suc (Suc (Suc 0))))))" by simp
  have a: "date_add_days ?today 7 = Inr ?next"
    unfolding seven by (simp add: next_day_def days_in_month_def is_leap_def)
  have full: "sort_key (\<lambda>c. date_key (date_of_birth c))
       (filter (\<lambda>c. in_window_spec ?today ?next (date_of_birth c)) (contacts birthday_db)) =
     [born 5 1970 1 29, born 2 1990 1 30, born 1 2001 2 3]"
    by (simp add: birthday_db_def born_def in_window_spec_def date_key_def)
  have p: "(0::int) \<le> 0" "(0::int) \<le> 10" "(0::int) \<le> 1" by simp_all
  from birthdays_in_window [OF v y p(1) p(2), of birthday_db] obtain nxt1 where
    n1: "date_add_days ?today 7 = Inr nxt1" and
    g1: "get_contacts_birthday_for_next_week ?today 0 10 birthday_db =
      Inr (take (nat 10) (drop (nat 0) (sort_key (\<lambda>c. date_key (date_of_birth c))
        (filter (\<lambda>c. in_window_spec ?today nxt1 (date_of_birth c)) (contacts birthday_db)))))"
    by blast
  from n1 a have "nxt1 = ?next" by simp
  with g1 full
  have r1: "get_contacts_birthday_for_next_week ?today 0 10 birthday_db =
     Inr [born 5 1970 1 29, born 2 1990 1 30, born 1 2001 2 3]"
    by simp
  from birthdays_in_window [OF v y p(3) p(3), of birthday_db] obtain nxt2 where
    n2: "date_add_days ?today 7 = Inr nxt2" and
    g2: "get_contacts_birthday_for_next_week ?today 1 1 birthday_db =
      Inr (take (nat 1) (drop (nat 1) (sort_key (\<lambda>c. date_key (date_of_birth c))
        (filter (\<lambda>c. in_window_spec ?today nxt2 (date_of_birth c)) (contacts birthday_db)))))"
    by blast
  from n2 a have "nxt2 = ?next" by simp
  with g2 full
  have r2: "get_contacts_birthday_for_next_week ?today 1 1 birthday_db = Inr [born 2 1990 1 30]"
    by simp
  from a r1 r2 show ?thesis by blast
qed

end
